theory Spec2Isabelle
  imports Complex_Main "HOL-Library.Log_Nat"
begin

section \<open>The leap-frog Maxwell solver of \<^verbatim>\<open>ex_4/ex04_Safin.ipynb\<close>\<close>

text \<open>
  The notebook defines \<^verbatim>\<open>update_E_vec\<close> and \<^verbatim>\<open>update_B_vec\<close>, which fill a new
  NumPy array from two given ones in a triple loop, and a time loop that rebinds
  \<^verbatim>\<open>E_vec\<close> and \<^verbatim>\<open>B_vec\<close> to their results. The embedding keeps what the Python does:
  arrays live in a store and are passed by reference, \<^verbatim>\<open>np.zeros\<close> allocates, an item
  assignment mutates the store, an index out of range raises \<^verbatim>\<open>IndexError\<close> and ends
  the loops. The array elements are 64-bit floats in the notebook; here they are real
  numbers. The first embedding computes with them exactly (no rounding, no infinities,
  no NaN); it is the one the formulas, the loops, the store and the indexing are proved
  on. The second embedding rounds the result of every operation, to float64 when the
  rounding function is \<open>fl64\<close>; it is the one a law between two runs is tested on. In
  both \<^verbatim>\<open>dt / h\<close> with a spacing \<open>h[d] = 0\<close> is \<open>inf\<close> or \<open>nan\<close> in NumPy and 0 in HOL: the
  statements are meant for \<open>h[d] \<noteq> 0\<close>.
  The parameters are typed as the notebook uses them: \<open>dt\<close> a number, \<open>h\<close> three
  numbers, \<open>N\<close> three Python integers, the fields arrays of four axes.
\<close>

subsection \<open>NumPy arrays of four axes\<close>

datatype error = IndexError

type_synonym shape4 = "nat \<times> nat \<times> nat \<times> nat"
type_synonym index4 = "int \<times> int \<times> int \<times> int"
type_synonym point4 = "nat \<times> nat \<times> nat \<times> nat"

record ndarray =
  shape :: shape4
  data :: "real list"

fun size_of :: "shape4 \<Rightarrow> nat" where
  "size_of (n0, n1, n2, n3) = n0 * n1 * n2 * n3"

text \<open>\<^verbatim>\<open>np.zeros(shape, dtype=float)\<close>: a new array, every element 0.\<close>

definition zeros :: "shape4 \<Rightarrow> ndarray" where
  "zeros sh = \<lparr>shape = sh, data = replicate (size_of sh) 0\<rparr>"

text \<open>The position of an element in the row-major buffer.\<close>

fun offset :: "shape4 \<Rightarrow> point4 \<Rightarrow> nat" where
  "offset (n0, n1, n2, n3) (c, i, j, k) = ((c * n1 + i) * n2 + j) * n3 + k"

text \<open>
  An integer index along an axis of length \<open>n\<close>: \<open>0 \<dots> n-1\<close> is taken as it is, a
  negative index \<open>-n \<dots> -1\<close> counts from the end, anything else raises.
\<close>

definition norm_index :: "nat \<Rightarrow> int \<Rightarrow> error + nat" where
  "norm_index n i =
     (if 0 \<le> i \<and> i < int n then Inr (nat i)
      else if - int n \<le> i \<and> i < 0 then Inr (nat (i + int n))
      else Inl IndexError)"

fun locate :: "shape4 \<Rightarrow> index4 \<Rightarrow> error + nat" where
  "locate (n0, n1, n2, n3) (c, i, j, k) =
     (case norm_index n0 c of Inl e \<Rightarrow> Inl e | Inr c' \<Rightarrow>
     (case norm_index n1 i of Inl e \<Rightarrow> Inl e | Inr i' \<Rightarrow>
     (case norm_index n2 j of Inl e \<Rightarrow> Inl e | Inr j' \<Rightarrow>
     (case norm_index n3 k of Inl e \<Rightarrow> Inl e | Inr k' \<Rightarrow>
        Inr (offset (n0, n1, n2, n3) (c', i', j', k'))))))"

text \<open>\<^verbatim>\<open>a[c,i,j,k]\<close> as an expression and as the target of an assignment.\<close>

definition getitem :: "ndarray \<Rightarrow> index4 \<Rightarrow> error + real" where
  "getitem a idx =
     (case locate (shape a) idx of Inl e \<Rightarrow> Inl e | Inr p \<Rightarrow> Inr (data a ! p))"

definition setitem :: "ndarray \<Rightarrow> index4 \<Rightarrow> real \<Rightarrow> error + ndarray" where
  "setitem a idx v =
     (case locate (shape a) idx of Inl e \<Rightarrow> Inl e
      | Inr p \<Rightarrow> Inr (a\<lparr>data := (data a)[p := v]\<rparr>))"

subsection \<open>Store, expressions, statements\<close>

type_synonym ref = nat
type_synonym heap = "ndarray list"

text \<open>A statement either completes (\<open>None\<close>) or raises; the state is kept in both cases.\<close>

type_synonym 's stmt = "'s \<Rightarrow> error option \<times> 's"
type_synonym expr = "heap \<Rightarrow> error + real"

definition alloc :: "ndarray \<Rightarrow> heap \<Rightarrow> ref \<times> heap" where
  "alloc a s = (length s, s @ [a])"

definition item :: "ref \<Rightarrow> index4 \<Rightarrow> expr" where
  "item r idx s = getitem (s ! r) idx"

definition const :: "real \<Rightarrow> expr" where
  "const v s = Inr v"

definition binop :: "(real \<Rightarrow> real \<Rightarrow> real) \<Rightarrow> expr \<Rightarrow> expr \<Rightarrow> expr" where
  "binop f x y s =
     (case x s of Inl e \<Rightarrow> Inl e | Inr u \<Rightarrow>
     (case y s of Inl e \<Rightarrow> Inl e | Inr v \<Rightarrow> Inr (f u v)))"

abbreviation add :: "expr \<Rightarrow> expr \<Rightarrow> expr" where
  "add \<equiv> binop (+)"

abbreviation sub :: "expr \<Rightarrow> expr \<Rightarrow> expr" where
  "sub \<equiv> binop (-)"

abbreviation mul :: "expr \<Rightarrow> expr \<Rightarrow> expr" where
  "mul \<equiv> binop (*)"

text \<open>\<^verbatim>\<open>r[idx] = rhs\<close>: the right-hand side is evaluated first, then the element is stored.\<close>

definition assign_item :: "ref \<Rightarrow> index4 \<Rightarrow> expr \<Rightarrow> heap stmt" where
  "assign_item r idx rhs s =
     (case rhs s of Inl e \<Rightarrow> (Some e, s)
      | Inr v \<Rightarrow>
         (case setitem (s ! r) idx v of Inl e \<Rightarrow> (Some e, s)
          | Inr a \<Rightarrow> (None, s[r := a])))"

definition seq :: "'s stmt \<Rightarrow> 's stmt \<Rightarrow> 's stmt" where
  "seq p q s = (case p s of (Some e, s') \<Rightarrow> (Some e, s') | (None, s') \<Rightarrow> q s')"

text \<open>\<^verbatim>\<open>range(n)\<close> and \<^verbatim>\<open>for x in xs: body\<close>.\<close>

definition range_py :: "int \<Rightarrow> int list" where
  "range_py n = map int [0..<nat n]"

fun for_loop :: "int list \<Rightarrow> (int \<Rightarrow> 's stmt) \<Rightarrow> 's stmt" where
  "for_loop [] body s = (None, s)"
| "for_loop (x # xs) body s =
     (case body x s of (Some e, s') \<Rightarrow> (Some e, s') | (None, s') \<Rightarrow> for_loop xs body s')"

subsection \<open>The two updates\<close>

type_synonym vec3 = "real \<times> real \<times> real"

text \<open>\<^verbatim>\<open>dt / h\<close> for a scalar \<open>dt\<close> and an array \<open>h\<close> of three spacings, and \<^verbatim>\<open>v[0]\<close>, \<^verbatim>\<open>v[1]\<close>, \<^verbatim>\<open>v[2]\<close>.\<close>

fun true_divide :: "real \<Rightarrow> vec3 \<Rightarrow> vec3" where
  "true_divide dt (h0, h1, h2) = (dt / h0, dt / h1, dt / h2)"

fun at0 :: "'a \<times> 'a \<times> 'a \<Rightarrow> 'a" where "at0 (x, y, z) = x"
fun at1 :: "'a \<times> 'a \<times> 'a \<Rightarrow> 'a" where "at1 (x, y, z) = y"
fun at2 :: "'a \<times> 'a \<times> 'a \<Rightarrow> 'a" where "at2 (x, y, z) = z"

text \<open>The body of the innermost loop of \<^verbatim>\<open>update_E_vec\<close>: three item assignments.\<close>

definition E_body :: "vec3 \<Rightarrow> ref \<Rightarrow> ref \<Rightarrow> ref \<Rightarrow> int \<Rightarrow> int \<Rightarrow> int \<Rightarrow> heap stmt" where
  "E_body delta_n E_vec_new E_vec B_vec i j k =
     seq (assign_item E_vec_new (0, i, j, k)
            (add (item E_vec (0, i, j, k))
               (sub (mul (const (at1 delta_n)) (sub (item B_vec (2, i, j, k)) (item B_vec (2, i, j - 1, k))))
                    (mul (const (at2 delta_n)) (sub (item B_vec (1, i, j, k)) (item B_vec (1, i, j, k - 1)))))))
    (seq (assign_item E_vec_new (1, i, j, k)
            (add (item E_vec (1, i, j, k))
               (sub (mul (const (at2 delta_n)) (sub (item B_vec (0, i, j, k)) (item B_vec (0, i, j, k - 1))))
                    (mul (const (at0 delta_n)) (sub (item B_vec (2, i, j, k)) (item B_vec (2, i - 1, j, k)))))))
         (assign_item E_vec_new (2, i, j, k)
            (add (item E_vec (2, i, j, k))
               (sub (mul (const (at0 delta_n)) (sub (item B_vec (1, i, j, k)) (item B_vec (1, i - 1, j, k))))
                    (mul (const (at1 delta_n)) (sub (item B_vec (0, i, j, k)) (item B_vec (0, i, j - 1, k))))))))"

definition update_E_vec :: "real \<Rightarrow> vec3 \<Rightarrow> int \<times> int \<times> int \<Rightarrow> ref \<Rightarrow> ref \<Rightarrow> heap \<Rightarrow> (error + ref) \<times> heap" where
  "update_E_vec dt h N E_vec B_vec s =
     (let (E_vec_new, s1) = alloc (zeros (shape (s ! E_vec))) s;
          delta_n = true_divide dt h
      in case for_loop (range_py (at0 N)) (\<lambda>i.
              for_loop (range_py (at1 N)) (\<lambda>j.
              for_loop (range_py (at2 N)) (\<lambda>k.
                E_body delta_n E_vec_new E_vec B_vec i j k))) s1 of
           (Some e, s2) \<Rightarrow> (Inl e, s2)
         | (None, s2) \<Rightarrow> (Inr E_vec_new, s2))"

text \<open>The body of the innermost loop of \<^verbatim>\<open>update_B_vec\<close>.\<close>

definition B_body :: "vec3 \<Rightarrow> ref \<Rightarrow> ref \<Rightarrow> ref \<Rightarrow> int \<Rightarrow> int \<Rightarrow> int \<Rightarrow> heap stmt" where
  "B_body delta_n B_vec_new E_vec B_vec i j k =
     seq (assign_item B_vec_new (0, i, j, k)
            (sub (item B_vec (0, i, j, k))
               (sub (mul (const (at1 delta_n)) (sub (item E_vec (2, i, j, k)) (item E_vec (2, i, j - 1, k))))
                    (mul (const (at2 delta_n)) (sub (item E_vec (1, i, j, k)) (item E_vec (1, i, j, k - 1)))))))
    (seq (assign_item B_vec_new (1, i, j, k)
            (sub (item B_vec (1, i, j, k))
               (sub (mul (const (at2 delta_n)) (sub (item E_vec (0, i, j, k)) (item E_vec (0, i, j, k - 1))))
                    (mul (const (at0 delta_n)) (sub (item E_vec (2, i, j, k)) (item E_vec (2, i - 1, j, k)))))))
         (assign_item B_vec_new (2, i, j, k)
            (sub (item B_vec (2, i, j, k))
               (sub (mul (const (at0 delta_n)) (sub (item E_vec (1, i, j, k)) (item E_vec (1, i - 1, j, k))))
                    (mul (const (at1 delta_n)) (sub (item E_vec (0, i, j, k)) (item E_vec (0, i, j - 1, k))))))))"

definition update_B_vec :: "real \<Rightarrow> vec3 \<Rightarrow> int \<times> int \<times> int \<Rightarrow> ref \<Rightarrow> ref \<Rightarrow> heap \<Rightarrow> (error + ref) \<times> heap" where
  "update_B_vec dt h N E_vec B_vec s =
     (let (B_vec_new, s1) = alloc (zeros (shape (s ! B_vec))) s;
          delta_n = true_divide dt h
      in case for_loop (range_py (at0 N)) (\<lambda>i.
              for_loop (range_py (at1 N)) (\<lambda>j.
              for_loop (range_py (at2 N)) (\<lambda>k.
                B_body delta_n B_vec_new E_vec B_vec i j k))) s1 of
           (Some e, s2) \<Rightarrow> (Inl e, s2)
         | (None, s2) \<Rightarrow> (Inr B_vec_new, s2))"

subsection \<open>The time iteration\<close>

text \<open>
  The last cell runs \<^verbatim>\<open>for k in range(N_timesteps)\<close> over the two variables
  \<^verbatim>\<open>E_vec\<close> and \<^verbatim>\<open>B_vec\<close>; each pass rebinds \<^verbatim>\<open>E_vec\<close> to the result of
  \<^verbatim>\<open>update_E_vec\<close> and then \<^verbatim>\<open>B_vec\<close> to the result of \<^verbatim>\<open>update_B_vec\<close>, which is
  called with the new \<^verbatim>\<open>E_vec\<close>. The state of the loop is the pair of variables and the
  store.
\<close>

type_synonym env = "(ref \<times> ref) \<times> heap"

definition time_body :: "real \<Rightarrow> vec3 \<Rightarrow> int \<times> int \<times> int \<Rightarrow> int \<Rightarrow> env stmt" where
  "time_body dt h N k = (\<lambda>((E_vec, B_vec), s).
     case update_E_vec dt h N E_vec B_vec s of
       (Inl e, s1) \<Rightarrow> (Some e, ((E_vec, B_vec), s1))
     | (Inr E_vec', s1) \<Rightarrow>
         (case update_B_vec dt h N E_vec' B_vec s1 of
            (Inl e, s2) \<Rightarrow> (Some e, ((E_vec', B_vec), s2))
          | (Inr B_vec', s2) \<Rightarrow> (None, ((E_vec', B_vec'), s2))))"

definition time_iteration :: "real \<Rightarrow> vec3 \<Rightarrow> int \<times> int \<times> int \<Rightarrow> int \<Rightarrow> env stmt" where
  "time_iteration dt h N N_timesteps = for_loop (range_py N_timesteps) (time_body dt h N)"

text \<open>
  The pass with the two calls exchanged: the B-Update first, on the old \<open>E\<close>, then the
  E-Update on the new \<open>B\<close>. It is not in the notebook; it is the other order that the
  call-order property compares with \<open>time_body\<close>.
\<close>

definition swapped_body :: "real \<Rightarrow> vec3 \<Rightarrow> int \<times> int \<times> int \<Rightarrow> int \<Rightarrow> env stmt" where
  "swapped_body dt h N k = (\<lambda>((E_vec, B_vec), s).
     case update_B_vec dt h N E_vec B_vec s of
       (Inl e, s1) \<Rightarrow> (Some e, ((E_vec, B_vec), s1))
     | (Inr B_vec', s1) \<Rightarrow>
         (case update_E_vec dt h N E_vec B_vec' s1 of
            (Inl e, s2) \<Rightarrow> (Some e, ((E_vec, B_vec'), s2))
          | (Inr E_vec', s2) \<Rightarrow> (None, ((E_vec', B_vec'), s2))))"

subsection \<open>The same code in rounded arithmetic\<close>





definition binop_r :: "(real \<Rightarrow> real) \<Rightarrow> (real \<Rightarrow> real \<Rightarrow> real) \<Rightarrow> expr \<Rightarrow> expr \<Rightarrow> expr" where
  "binop_r rnd f x y s =
     (case x s of Inl e \<Rightarrow> Inl e | Inr u \<Rightarrow>
     (case y s of Inl e \<Rightarrow> Inl e | Inr v \<Rightarrow> Inr (rnd (f u v))))"

fun true_divide_r :: "(real \<Rightarrow> real) \<Rightarrow> real \<Rightarrow> vec3 \<Rightarrow> vec3" where
  "true_divide_r rnd dt (h0, h1, h2) = (rnd (dt / h0), rnd (dt / h1), rnd (dt / h2))"

definition E_body_r ::
  "(real \<Rightarrow> real) \<Rightarrow> vec3 \<Rightarrow> ref \<Rightarrow> ref \<Rightarrow> ref \<Rightarrow> int \<Rightarrow> int \<Rightarrow> int \<Rightarrow> heap stmt" where
  "E_body_r rnd delta_n E_vec_new E_vec B_vec i j k =
     seq (assign_item E_vec_new (0, i, j, k)
            (binop_r rnd (+) (item E_vec (0, i, j, k))
               (binop_r rnd (-)
                  (binop_r rnd (*) (const (at1 delta_n))
                     (binop_r rnd (-) (item B_vec (2, i, j, k)) (item B_vec (2, i, j - 1, k))))
                  (binop_r rnd (*) (const (at2 delta_n))
                     (binop_r rnd (-) (item B_vec (1, i, j, k)) (item B_vec (1, i, j, k - 1)))))))
    (seq (assign_item E_vec_new (1, i, j, k)
            (binop_r rnd (+) (item E_vec (1, i, j, k))
               (binop_r rnd (-)
                  (binop_r rnd (*) (const (at2 delta_n))
                     (binop_r rnd (-) (item B_vec (0, i, j, k)) (item B_vec (0, i, j, k - 1))))
                  (binop_r rnd (*) (const (at0 delta_n))
                     (binop_r rnd (-) (item B_vec (2, i, j, k)) (item B_vec (2, i - 1, j, k)))))))
         (assign_item E_vec_new (2, i, j, k)
            (binop_r rnd (+) (item E_vec (2, i, j, k))
               (binop_r rnd (-)
                  (binop_r rnd (*) (const (at0 delta_n))
                     (binop_r rnd (-) (item B_vec (1, i, j, k)) (item B_vec (1, i - 1, j, k))))
                  (binop_r rnd (*) (const (at1 delta_n))
                     (binop_r rnd (-) (item B_vec (0, i, j, k)) (item B_vec (0, i, j - 1, k))))))))"

definition update_E_vec_r ::
  "(real \<Rightarrow> real) \<Rightarrow> real \<Rightarrow> vec3 \<Rightarrow> int \<times> int \<times> int \<Rightarrow> ref \<Rightarrow> ref \<Rightarrow> heap \<Rightarrow> (error + ref) \<times> heap" where
  "update_E_vec_r rnd dt h N E_vec B_vec s =
     (let (E_vec_new, s1) = alloc (zeros (shape (s ! E_vec))) s;
          delta_n = true_divide_r rnd dt h
      in case for_loop (range_py (at0 N)) (\<lambda>i.
              for_loop (range_py (at1 N)) (\<lambda>j.
              for_loop (range_py (at2 N)) (\<lambda>k.
                E_body_r rnd delta_n E_vec_new E_vec B_vec i j k))) s1 of
           (Some e, s2) \<Rightarrow> (Inl e, s2)
         | (None, s2) \<Rightarrow> (Inr E_vec_new, s2))"

definition B_body_r ::
  "(real \<Rightarrow> real) \<Rightarrow> vec3 \<Rightarrow> ref \<Rightarrow> ref \<Rightarrow> ref \<Rightarrow> int \<Rightarrow> int \<Rightarrow> int \<Rightarrow> heap stmt" where
  "B_body_r rnd delta_n B_vec_new E_vec B_vec i j k =
     seq (assign_item B_vec_new (0, i, j, k)
            (binop_r rnd (-) (item B_vec (0, i, j, k))
               (binop_r rnd (-)
                  (binop_r rnd (*) (const (at1 delta_n))
                     (binop_r rnd (-) (item E_vec (2, i, j, k)) (item E_vec (2, i, j - 1, k))))
                  (binop_r rnd (*) (const (at2 delta_n))
                     (binop_r rnd (-) (item E_vec (1, i, j, k)) (item E_vec (1, i, j, k - 1)))))))
    (seq (assign_item B_vec_new (1, i, j, k)
            (binop_r rnd (-) (item B_vec (1, i, j, k))
               (binop_r rnd (-)
                  (binop_r rnd (*) (const (at2 delta_n))
                     (binop_r rnd (-) (item E_vec (0, i, j, k)) (item E_vec (0, i, j, k - 1))))
                  (binop_r rnd (*) (const (at0 delta_n))
                     (binop_r rnd (-) (item E_vec (2, i, j, k)) (item E_vec (2, i - 1, j, k)))))))
         (assign_item B_vec_new (2, i, j, k)
            (binop_r rnd (-) (item B_vec (2, i, j, k))
               (binop_r rnd (-)
                  (binop_r rnd (*) (const (at0 delta_n))
                     (binop_r rnd (-) (item E_vec (1, i, j, k)) (item E_vec (1, i - 1, j, k))))
                  (binop_r rnd (*) (const (at1 delta_n))
                     (binop_r rnd (-) (item E_vec (0, i, j, k)) (item E_vec (0, i, j - 1, k))))))))"

definition update_B_vec_r ::
  "(real \<Rightarrow> real) \<Rightarrow> real \<Rightarrow> vec3 \<Rightarrow> int \<times> int \<times> int \<Rightarrow> ref \<Rightarrow> ref \<Rightarrow> heap \<Rightarrow> (error + ref) \<times> heap" where
  "update_B_vec_r rnd dt h N E_vec B_vec s =
     (let (B_vec_new, s1) = alloc (zeros (shape (s ! B_vec))) s;
          delta_n = true_divide_r rnd dt h
      in case for_loop (range_py (at0 N)) (\<lambda>i.
              for_loop (range_py (at1 N)) (\<lambda>j.
              for_loop (range_py (at2 N)) (\<lambda>k.
                B_body_r rnd delta_n B_vec_new E_vec B_vec i j k))) s1 of
           (Some e, s2) \<Rightarrow> (Inl e, s2)
         | (None, s2) \<Rightarrow> (Inr B_vec_new, s2))"

definition time_body_r ::
  "(real \<Rightarrow> real) \<Rightarrow> real \<Rightarrow> vec3 \<Rightarrow> int \<times> int \<times> int \<Rightarrow> int \<Rightarrow> env stmt" where
  "time_body_r rnd dt h N k = (\<lambda>((E_vec, B_vec), s).
     case update_E_vec_r rnd dt h N E_vec B_vec s of
       (Inl e, s1) \<Rightarrow> (Some e, ((E_vec, B_vec), s1))
     | (Inr E_vec', s1) \<Rightarrow>
         (case update_B_vec_r rnd dt h N E_vec' B_vec s1 of
            (Inl e, s2) \<Rightarrow> (Some e, ((E_vec', B_vec), s2))
          | (Inr B_vec', s2) \<Rightarrow> (None, ((E_vec', B_vec'), s2))))"

section \<open>The specification's side\<close>

subsection \<open>The Time-Stepper\<close>

text \<open>
  The Time-Stepper of the specification, in its words: after 0 steps the pair \<open>(E, B)\<close>
  is the initial one; the step after the first \<open>M\<close> is \<open>E \<leftarrow> E-Update(dt, h, N, E, B)\<close>
  and then \<open>B \<leftarrow> B-Update(dt, h, N, E, B)\<close> with the \<open>E\<close> just computed; a failure of an
  update ends the run.
\<close>

fun leapfrog :: "real \<Rightarrow> vec3 \<Rightarrow> int \<times> int \<times> int \<Rightarrow> nat \<Rightarrow> env stmt" where
  "leapfrog dt h N 0 env = (None, env)"
| "leapfrog dt h N (Suc M) env =
     (case leapfrog dt h N M env of
        (Some e, env') \<Rightarrow> (Some e, env')
      | (None, ((E, B), s)) \<Rightarrow>
          (case update_E_vec dt h N E B s of
             (Inl e, s1) \<Rightarrow> (Some e, ((E, B), s1))
           | (Inr E', s1) \<Rightarrow>
               (case update_B_vec dt h N E' B s1 of
                  (Inl e, s2) \<Rightarrow> (Some e, ((E', B), s2))
                | (Inr B', s2) \<Rightarrow> (None, ((E', B'), s2)))))"

subsection \<open>Field Grid access with periodic wrap\<close>

text \<open>
  The Field Grid of the specification reads an element after reducing \<open>i\<close>, \<open>j\<close> and \<open>k\<close>
  modulo the length of their axes (the mathematical modulo, which is what \<open>mod\<close> is on
  \<open>int\<close>); the component is taken as it is.
\<close>

fun in_bounds :: "shape4 \<Rightarrow> point4 \<Rightarrow> bool" where
  "in_bounds (n0, n1, n2, n3) (c, i, j, k) = (c < n0 \<and> i < n1 \<and> j < n2 \<and> k < n3)"

fun wrap :: "shape4 \<Rightarrow> index4 \<Rightarrow> point4" where
  "wrap (n0, n1, n2, n3) (c, i, j, k) =
     (nat c, nat (i mod int n1), nat (j mod int n2), nat (k mod int n3))"

definition get_periodic :: "ndarray \<Rightarrow> index4 \<Rightarrow> real" where
  "get_periodic a idx = data a ! offset (shape a) (wrap (shape a) idx)"

fun of_point :: "point4 \<Rightarrow> index4" where
  "of_point (c, i, j, k) = (int c, int i, int j, int k)"

subsection \<open>The update formulas\<close>

text \<open>
  The value the E-Update and the B-Update give to component \<open>c\<close> at \<open>(i, j, k)\<close>, with
  \<open>d\<close> the vector of the three ratios \<open>dt / h[d]\<close>.
\<close>

fun E_next :: "vec3 \<Rightarrow> ndarray \<Rightarrow> ndarray \<Rightarrow> index4 \<Rightarrow> real" where
  "E_next d E B (c, i, j, k) =
     (if c = 0 then
        get_periodic E (0, i, j, k)
          + (at1 d * (get_periodic B (2, i, j, k) - get_periodic B (2, i, j - 1, k))
             - at2 d * (get_periodic B (1, i, j, k) - get_periodic B (1, i, j, k - 1)))
      else if c = 1 then
        get_periodic E (1, i, j, k)
          + (at2 d * (get_periodic B (0, i, j, k) - get_periodic B (0, i, j, k - 1))
             - at0 d * (get_periodic B (2, i, j, k) - get_periodic B (2, i - 1, j, k)))
      else
        get_periodic E (2, i, j, k)
          + (at0 d * (get_periodic B (1, i, j, k) - get_periodic B (1, i - 1, j, k))
             - at1 d * (get_periodic B (0, i, j, k) - get_periodic B (0, i, j - 1, k))))"

fun B_next :: "vec3 \<Rightarrow> ndarray \<Rightarrow> ndarray \<Rightarrow> index4 \<Rightarrow> real" where
  "B_next d E B (c, i, j, k) =
     (if c = 0 then
        get_periodic B (0, i, j, k)
          - (at1 d * (get_periodic E (2, i, j, k) - get_periodic E (2, i, j - 1, k))
             - at2 d * (get_periodic E (1, i, j, k) - get_periodic E (1, i, j, k - 1)))
      else if c = 1 then
        get_periodic B (1, i, j, k)
          - (at2 d * (get_periodic E (0, i, j, k) - get_periodic E (0, i, j, k - 1))
             - at0 d * (get_periodic E (2, i, j, k) - get_periodic E (2, i - 1, j, k)))
      else
        get_periodic B (2, i, j, k)
          - (at0 d * (get_periodic E (1, i, j, k) - get_periodic E (1, i - 1, j, k))
             - at1 d * (get_periodic E (0, i, j, k) - get_periodic E (0, i, j - 1, k))))"

subsection \<open>Scaled fields\<close>



subsection \<open>Predicates of the proofs\<close>

text \<open>
  \<open>covers sh n0 n1 n2\<close>: an array of shape \<open>sh\<close> has the three components and at least
  \<open>n0\<close>, \<open>n1\<close>, \<open>n2\<close> points along its axes. \<open>lattice\<close> is the set of elements the three
  loops assign. \<open>written s0 sh F D t\<close> is the invariant of the loops: the store \<open>t\<close> is
  \<open>s0\<close> with one more array, of shape \<open>sh\<close>, that holds \<open>F\<close> on \<open>D\<close> and 0 elsewhere.
  \<open>grown\<close> is the part of it that also holds when the loops raise.
\<close>

definition covers :: "shape4 \<Rightarrow> nat \<Rightarrow> nat \<Rightarrow> nat \<Rightarrow> bool" where
  "covers sh n0 n1 n2 =
     (case sh of (c, m1, m2, m3) \<Rightarrow> 3 \<le> c \<and> n0 \<le> m1 \<and> n1 \<le> m2 \<and> n2 \<le> m3)"

definition lattice :: "nat \<Rightarrow> nat \<Rightarrow> nat \<Rightarrow> point4 set" where
  "lattice n0 n1 n2 = {(c, i, j, k). c < 3 \<and> i < n0 \<and> j < n1 \<and> k < n2}"

definition written :: "heap \<Rightarrow> shape4 \<Rightarrow> (point4 \<Rightarrow> real) \<Rightarrow> point4 set \<Rightarrow> heap \<Rightarrow> bool" where
  "written s0 sh F D t \<longleftrightarrow>
     (\<exists>a. t = s0 @ [a] \<and> shape a = sh \<and> length (data a) = size_of sh \<and>
          (\<forall>p. in_bounds sh p \<longrightarrow> data a ! offset sh p = (if p \<in> D then F p else 0)))"

definition grown :: "heap \<Rightarrow> shape4 \<Rightarrow> heap \<Rightarrow> bool" where
  "grown s0 sh t \<longleftrightarrow> (\<exists>a. t = s0 @ [a] \<and> shape a = sh)"

text \<open>\<open>keeps P c\<close>: the statement \<open>c\<close> preserves \<open>P\<close>, whether it completes or raises.\<close>

definition keeps :: "('s \<Rightarrow> bool) \<Rightarrow> 's stmt \<Rightarrow> bool" where
  "keeps P c \<longleftrightarrow> (\<forall>t r t'. P t \<longrightarrow> c t = (r, t') \<longrightarrow> P t')"

subsection \<open>A small grid for the examples\<close>

text \<open>
  Two fields on the grid \<open>N = (2, 1, 1)\<close>: \<open>E_ex\<close> has the components \<open>x = [1, 2]\<close>,
  \<open>y = [3, 4]\<close>, \<open>z = [5, 6]\<close> along \<open>i\<close>, and \<open>B_ex\<close> is 0 but for \<open>B_z = 1\<close> at \<open>i = 0\<close>.
\<close>

definition E_ex :: ndarray where
  "E_ex = \<lparr>shape = (3, 2, 1, 1), data = [1, 2, 3, 4, 5, 6]\<rparr>"

definition B_ex :: ndarray where
  "B_ex = \<lparr>shape = (3, 2, 1, 1), data = [0, 0, 0, 0, 1, 0]\<rparr>"

text \<open>A field on the grid \<open>N = (1, 1, 1)\<close>.\<close>

definition E_small :: ndarray where
  "E_small = \<lparr>shape = (3, 1, 1, 1), data = [1, 2, 3]\<rparr>"

section \<open>Arrays, stores and loops\<close>

subsection \<open>Indices and offsets\<close>

lemma neg_index_mod: "- int n \<le> i \<Longrightarrow> i < 0 \<Longrightarrow> i mod int n = i + int n"
proof -
  assume a: "- int n \<le> i" "i < 0"
  have "i mod int n = (i + int n) mod int n" by simp
  also have "\<dots> = i + int n" using a by (intro mod_pos_pos_trivial) auto
  finally show ?thesis .
qed

lemma norm_index_mod:
  "- int n \<le> i \<Longrightarrow> i < int n \<Longrightarrow> norm_index n i = Inr (nat (i mod int n))"
  by (simp add: norm_index_def neg_index_mod)

lemma radix_less: "(x::nat) < a \<Longrightarrow> k < n \<Longrightarrow> x * n + k < a * n"
proof -
  assume a: "x < a" "k < n"
  have "x * n + k < Suc x * n" using a by simp
  also have "\<dots> \<le> a * n" using a by (intro mult_le_mono1) simp
  finally show ?thesis .
qed

lemma radix_inj:
  assumes "(k::nat) < n" "k' < n" "x * n + k = x' * n + k'"
  shows "x = x' \<and> k = k'"
proof -
  have "(x * n + k) div n = (x' * n + k') div n" using assms(3) by simp
  then have "x = x'" using assms(1,2) by simp
  then show ?thesis using assms(3) by simp
qed

lemma offset_less: "in_bounds sh p \<Longrightarrow> offset sh p < size_of sh"
proof (cases sh, cases p)
  fix n0 n1 n2 n3 c i j k
  assume sh: "sh = (n0, n1, n2, n3)" and p: "p = (c, i, j, k)" and b: "in_bounds sh p"
  have 1: "c * n1 + i < n0 * n1" using b sh p by (simp add: radix_less)
  have 2: "(c * n1 + i) * n2 + j < n0 * n1 * n2" using 1 b sh p by (simp add: radix_less)
  have "((c * n1 + i) * n2 + j) * n3 + k < n0 * n1 * n2 * n3" using 2 b sh p by (simp add: radix_less)
  then show ?thesis using sh p by simp
qed

lemma offset_inj:
  assumes "in_bounds sh p" "in_bounds sh q" "offset sh p = offset sh q"
  shows "p = q"
proof (cases sh, cases p, cases q)
  fix n0 n1 n2 n3 c i j k c' i' j' k'
  assume sh: "sh = (n0, n1, n2, n3)" and p: "p = (c, i, j, k)" and q: "q = (c', i', j', k')"
  have e: "((c * n1 + i) * n2 + j) * n3 + k = ((c' * n1 + i') * n2 + j') * n3 + k'"
    using assms(3) sh p q by simp
  have b: "c < n0" "i < n1" "j < n2" "k < n3" "c' < n0" "i' < n1" "j' < n2" "k' < n3"
    using assms(1,2) sh p q by simp_all
  from radix_inj[OF b(4) b(8) e] have e2: "(c * n1 + i) * n2 + j = (c' * n1 + i') * n2 + j'" and k: "k = k'" by simp_all
  from radix_inj[OF b(3) b(7) e2] have e3: "c * n1 + i = c' * n1 + i'" and j: "j = j'" by simp_all
  from radix_inj[OF b(2) b(6) e3] have "c = c'" "i = i'" by simp_all
  then show ?thesis using k j p q by simp
qed

lemma locate_wrap:
  assumes "0 \<le> c" "c < int n0" "- int n1 \<le> i" "i < int n1" "- int n2 \<le> j" "j < int n2"
    "- int n3 \<le> k" "k < int n3"
  shows "locate (n0, n1, n2, n3) (c, i, j, k) = Inr (offset (n0, n1, n2, n3) (wrap (n0, n1, n2, n3) (c, i, j, k)))"
  using assms by (simp add: norm_index_mod)

lemma wrap_in_bounds:
  assumes "0 \<le> c" "c < int n0" "0 < n1" "0 < n2" "0 < n3"
  shows "in_bounds (n0, n1, n2, n3) (wrap (n0, n1, n2, n3) (c, i, j, k))"
  using assms by (simp add: nat_less_iff)

lemma wrap_point: "in_bounds sh (c, i, j, k) \<Longrightarrow> wrap sh (int c, int i, int j, int k) = (c, i, j, k)"
  by (cases sh) simp

subsection \<open>Reading the inputs, writing the new array\<close>

lemma getitem_periodic:
  assumes "shape a = (n0, n1, n2, n3)" "0 \<le> c" "c < int n0" "- int n1 \<le> i" "i < int n1"
    "- int n2 \<le> j" "j < int n2" "- int n3 \<le> k" "k < int n3"
  shows "getitem a (c, i, j, k) = Inr (get_periodic a (c, i, j, k))"
  using assms locate_wrap[of c n0 n1 i n2 j n3 k] by (simp add: getitem_def get_periodic_def)

lemma setitem_point:
  assumes "in_bounds (shape a) (c, i, j, k)"
  shows "setitem a (int c, int i, int j, int k) v =
           Inr (a\<lparr>data := (data a)[offset (shape a) (c, i, j, k) := v]\<rparr>)"
proof (cases "shape a")
  case (fields n0 n1 n2 n3)
  then show ?thesis
    using assms locate_wrap[of "int c" n0 n1 "int i" n2 "int j" n3 "int k"]
    by (simp add: setitem_def)
qed

lemma written_zeros: "written s0 sh F {} (s0 @ [zeros sh])"
  by (simp add: written_def zeros_def offset_less)

lemma written_item:
  "written s0 sh F D t \<Longrightarrow> r < length s0 \<Longrightarrow> item r idx t = getitem (s0 ! r) idx"
  by (auto simp: written_def item_def nth_append)

lemma written_item_periodic:
  assumes "written s0 sh F D t" "r < length s0" "shape (s0 ! r) = (n0, n1, n2, n3)"
    "0 \<le> c" "c < int n0" "- int n1 \<le> i" "i < int n1"
    "- int n2 \<le> j" "j < int n2" "- int n3 \<le> k" "k < int n3"
  shows "item r (c, i, j, k) t = Inr (get_periodic (s0 ! r) (c, i, j, k))"
  using assms by (simp add: written_item getitem_periodic)

lemma written_assign:
  assumes w: "written s0 sh F D t" and b: "in_bounds sh (c, i, j, k)"
    and r: "rhs t = Inr (F (c, i, j, k))"
  shows "\<exists>t'. assign_item (length s0) (int c, int i, int j, int k) rhs t = (None, t') \<and>
              written s0 sh F (insert (c, i, j, k) D) t'"
proof -
  from w obtain a where t: "t = s0 @ [a]" and sa: "shape a = sh"
    and la: "length (data a) = size_of sh"
    and el: "\<And>p. in_bounds sh p \<Longrightarrow> data a ! offset sh p = (if p \<in> D then F p else 0)"
    by (auto simp: written_def)
  let ?q = "(c, i, j, k)"
  let ?a' = "a\<lparr>data := (data a)[offset sh ?q := F ?q]\<rparr>"
  have run: "assign_item (length s0) (int c, int i, int j, int k) rhs t = (None, s0 @ [?a'])"
    using r t sa b setitem_point[of a c i j k "F ?q"] by (simp add: assign_item_def)
  have "data ?a' ! offset sh p = (if p \<in> insert ?q D then F p else 0)" if p: "in_bounds sh p" for p
  proof (cases "p = ?q")
    case True
    then show ?thesis using offset_less[OF b] la by simp
  next
    case False
    then have "offset sh p \<noteq> offset sh ?q" using offset_inj[OF p b] by blast
    then show ?thesis using False el[OF p] by simp
  qed
  then have "written s0 sh F (insert ?q D) (s0 @ [?a'])"
    using sa la by (simp add: written_def)
  with run show ?thesis by blast
qed

subsection \<open>The loops\<close>

lemma for_loop_upt:
  assumes step: "\<And>m t. m < n \<Longrightarrow> I m t \<Longrightarrow> \<exists>t'. body (int m) t = (None, t') \<and> I (Suc m) t'"
  shows "m \<le> n \<Longrightarrow> I m s \<Longrightarrow> \<exists>s'. for_loop (map int [m..<n]) body s = (None, s') \<and> I n s'"
proof (induction "n - m" arbitrary: m s)
  case 0
  then show ?case by simp
next
  case (Suc d)
  then have lt: "m < n" by simp
  from step[OF lt Suc.prems(2)] obtain t' where b: "body (int m) s = (None, t')" and i: "I (Suc m) t'"
    by blast
  have "d = n - Suc m" using Suc.hyps(2) by simp
  from Suc.hyps(1)[OF this _ i] lt obtain s' where
    "for_loop (map int [Suc m..<n]) body t' = (None, s')" "I n s'" by auto
  then show ?case using b lt by (simp add: upt_conv_Cons)
qed

lemma for_range:
  assumes "I 0 s"
    and "\<And>m t. m < nat n \<Longrightarrow> I m t \<Longrightarrow> \<exists>t'. body (int m) t = (None, t') \<and> I (Suc m) t'"
  shows "\<exists>s'. for_loop (range_py n) body s = (None, s') \<and> I (nat n) s'"
  using for_loop_upt[of "nat n" I body 0 s] assms by (simp add: range_py_def)

lemma lattice_cells:
  "{(c, i, j, k) |c k. c < 3 \<and> k < m} \<union> {(0, i, j, m), (1, i, j, m), (2, i, j, m)} =
   {(c, i, j, k) |c k. c < (3::nat) \<and> k < Suc m}"
  by (auto simp: less_Suc_eq numeral_3_eq_3)

lemma lattice_rows:
  "{(c, i, j, k) |c j k. c < 3 \<and> j < m \<and> k < n2} \<union> {(c, i, m, k) |c k. c < 3 \<and> k < n2} =
   {(c, i, j, k) |c j k. c < (3::nat) \<and> j < Suc m \<and> k < n2}"
  by (auto simp: less_Suc_eq)

lemma lattice_planes:
  "lattice m n1 n2 \<union> {(c, m, j, k) |c j k. c < 3 \<and> j < n1 \<and> k < n2} = lattice (Suc m) n1 n2"
  by (auto simp: lattice_def less_Suc_eq)

lemma triple_loop:
  assumes body: "\<And>D t i j k. i < nat N0 \<Longrightarrow> j < nat N1 \<Longrightarrow> k < nat N2 \<Longrightarrow> written s0 sh F D t \<Longrightarrow>
      \<exists>t'. body (int i) (int j) (int k) t = (None, t') \<and>
           written s0 sh F (D \<union> {(0, i, j, k), (1, i, j, k), (2, i, j, k)}) t'"
    and init: "written s0 sh F {} t0"
  shows "\<exists>t'. for_loop (range_py N0) (\<lambda>i.
               for_loop (range_py N1) (\<lambda>j.
               for_loop (range_py N2) (\<lambda>k. body i j k))) t0 = (None, t') \<and>
              written s0 sh F (lattice (nat N0) (nat N1) (nat N2)) t'"
proof -
  have inner: "\<exists>t'. for_loop (range_py N2) (\<lambda>k. body (int i) (int j) k) t = (None, t') \<and>
      written s0 sh F (D \<union> {(c, i, j, k) |c k. c < 3 \<and> k < nat N2}) t'"
    if "i < nat N0" "j < nat N1" "written s0 sh F D t" for D t i j
  proof (rule for_range[where I = "\<lambda>m. written s0 sh F (D \<union> {(c, i, j, k) |c k. c < 3 \<and> k < m})"])
    show "written s0 sh F (D \<union> {(c, i, j, k) |c k. c < 3 \<and> k < 0}) t" using that(3) by simp
  next
    fix m u
    assume "m < nat N2" and "written s0 sh F (D \<union> {(c, i, j, k) |c k. c < 3 \<and> k < m}) u"
    from body[OF that(1,2) this]
    show "\<exists>t'. body (int i) (int j) (int m) u = (None, t') \<and>
               written s0 sh F (D \<union> {(c, i, j, k) |c k. c < 3 \<and> k < Suc m}) t'"
      by (simp only: Un_assoc lattice_cells)
  qed
  have middle: "\<exists>t'. for_loop (range_py N1) (\<lambda>j.
                      for_loop (range_py N2) (\<lambda>k. body (int i) j k)) t = (None, t') \<and>
      written s0 sh F (D \<union> {(c, i, j, k) |c j k. c < 3 \<and> j < nat N1 \<and> k < nat N2}) t'"
    if "i < nat N0" "written s0 sh F D t" for D t i
  proof (rule for_range[where I = "\<lambda>m. written s0 sh F (D \<union> {(c, i, j, k) |c j k. c < 3 \<and> j < m \<and> k < nat N2})"])
    show "written s0 sh F (D \<union> {(c, i, j, k) |c j k. c < 3 \<and> j < 0 \<and> k < nat N2}) t" using that(2) by simp
  next
    fix m u
    assume "m < nat N1" and "written s0 sh F (D \<union> {(c, i, j, k) |c j k. c < 3 \<and> j < m \<and> k < nat N2}) u"
    from inner[OF that(1) this]
    show "\<exists>t'. for_loop (range_py N2) (\<lambda>k. body (int i) (int m) k) u = (None, t') \<and>
               written s0 sh F (D \<union> {(c, i, j, k) |c j k. c < 3 \<and> j < Suc m \<and> k < nat N2}) t'"
      by (simp only: Un_assoc lattice_rows)
  qed
  have "\<exists>t'. for_loop (range_py N0) (\<lambda>i.
               for_loop (range_py N1) (\<lambda>j.
               for_loop (range_py N2) (\<lambda>k. body i j k))) t0 = (None, t') \<and>
              written s0 sh F (lattice (nat N0) (nat N1) (nat N2)) t'"
  proof (rule for_range[where I = "\<lambda>m. written s0 sh F (lattice m (nat N1) (nat N2))"])
    have "lattice 0 (nat N1) (nat N2) = {}" by (auto simp: lattice_def)
    then show "written s0 sh F (lattice 0 (nat N1) (nat N2)) t0" using init by simp
  next
    fix m u
    assume "m < nat N0" and "written s0 sh F (lattice m (nat N1) (nat N2)) u"
    from middle[OF this]
    show "\<exists>t'. for_loop (range_py N1) (\<lambda>j.
                 for_loop (range_py N2) (\<lambda>k. body (int m) j k)) u = (None, t') \<and>
               written s0 sh F (lattice (Suc m) (nat N1) (nat N2)) t'"
      by (simp only: lattice_planes)
  qed
  then show ?thesis .
qed

subsection \<open>The bodies of the loops and the two updates\<close>

lemma covers_item:
  assumes w: "written s0 sh F D t" and r: "r < length s0" and cv: "covers (shape (s0 ! r)) n0 n1 n2"
    and c: "0 \<le> c" "c < 3"
    and i: "- 1 \<le> i" "i < int n0" and j: "- 1 \<le> j" "j < int n1" and k: "- 1 \<le> k" "k < int n2"
    and pos: "0 < n0" "0 < n1" "0 < n2"
  shows "item r (c, i, j, k) t = Inr (get_periodic (s0 ! r) (c, i, j, k))"
proof (cases "shape (s0 ! r)")
  case (fields c0 m1 m2 m3)
  with cv have "3 \<le> c0" "n0 \<le> m1" "n1 \<le> m2" "n2 \<le> m3" by (simp_all add: covers_def)
  then show ?thesis
    using c i j k pos by (intro written_item_periodic[OF w r fields]) auto
qed

lemma covers_in_bounds:
  "covers sh n0 n1 n2 \<Longrightarrow> c < 3 \<Longrightarrow> i < n0 \<Longrightarrow> j < n1 \<Longrightarrow> k < n2 \<Longrightarrow> in_bounds sh (c, i, j, k)"
  by (cases sh) (simp add: covers_def)

lemma E_body_written:
  assumes w: "written s0 sh (\<lambda>p. E_next d (s0 ! e) (s0 ! b) (of_point p)) D t"
    and e: "e < length s0" and b: "b < length s0"
    and sh: "sh = shape (s0 ! e)"
    and ce: "covers (shape (s0 ! e)) n0 n1 n2" and cb: "covers (shape (s0 ! b)) n0 n1 n2"
    and i: "i < n0" and j: "j < n1" and k: "k < n2"
  shows "\<exists>t'. E_body d (length s0) e b (int i) (int j) (int k) t = (None, t') \<and>
       written s0 sh (\<lambda>p. E_next d (s0 ! e) (s0 ! b) (of_point p))
         (D \<union> {(0, i, j, k), (1, i, j, k), (2, i, j, k)}) t'"
proof -
  let ?F = "\<lambda>p. E_next d (s0 ! e) (s0 ! b) (of_point p)"
  note rd = covers_item[OF _ e ce] covers_item[OF _ b cb]
  have b0: "in_bounds sh (0, i, j, k)" and b1: "in_bounds sh (1, i, j, k)" and b2: "in_bounds sh (2, i, j, k)"
    using covers_in_bounds[OF ce _ i j k] sh by simp_all
  from written_assign[OF w b0, where rhs = "add (item e (0, int i, int j, int k))
               (sub (mul (const (at1 d)) (sub (item b (2, int i, int j, int k)) (item b (2, int i, int j - 1, int k))))
                    (mul (const (at2 d)) (sub (item b (1, int i, int j, int k)) (item b (1, int i, int j, int k - 1)))))"]
  obtain t1 where t1: "assign_item (length s0) (0, int i, int j, int k) (add (item e (0, int i, int j, int k))
               (sub (mul (const (at1 d)) (sub (item b (2, int i, int j, int k)) (item b (2, int i, int j - 1, int k))))
                    (mul (const (at2 d)) (sub (item b (1, int i, int j, int k)) (item b (1, int i, int j, int k - 1)))))) t = (None, t1)"
    and w1: "written s0 sh ?F (insert (0, i, j, k) D) t1"
    using i j k by (auto simp: binop_def const_def rd[OF w])
  from written_assign[OF w1 b1, where rhs = "add (item e (1, int i, int j, int k))
               (sub (mul (const (at2 d)) (sub (item b (0, int i, int j, int k)) (item b (0, int i, int j, int k - 1))))
                    (mul (const (at0 d)) (sub (item b (2, int i, int j, int k)) (item b (2, int i - 1, int j, int k)))))"]
  obtain t2 where t2: "assign_item (length s0) (1, int i, int j, int k) (add (item e (1, int i, int j, int k))
               (sub (mul (const (at2 d)) (sub (item b (0, int i, int j, int k)) (item b (0, int i, int j, int k - 1))))
                    (mul (const (at0 d)) (sub (item b (2, int i, int j, int k)) (item b (2, int i - 1, int j, int k)))))) t1 = (None, t2)"
    and w2: "written s0 sh ?F (insert (1, i, j, k) (insert (0, i, j, k) D)) t2"
    using i j k by (auto simp: binop_def const_def rd[OF w1])
  from written_assign[OF w2 b2, where rhs = "add (item e (2, int i, int j, int k))
               (sub (mul (const (at0 d)) (sub (item b (1, int i, int j, int k)) (item b (1, int i - 1, int j, int k))))
                    (mul (const (at1 d)) (sub (item b (0, int i, int j, int k)) (item b (0, int i, int j - 1, int k)))))"]
  obtain t3 where t3: "assign_item (length s0) (2, int i, int j, int k) (add (item e (2, int i, int j, int k))
               (sub (mul (const (at0 d)) (sub (item b (1, int i, int j, int k)) (item b (1, int i - 1, int j, int k))))
                    (mul (const (at1 d)) (sub (item b (0, int i, int j, int k)) (item b (0, int i, int j - 1, int k)))))) t2 = (None, t3)"
    and w3: "written s0 sh ?F (insert (2, i, j, k) (insert (1, i, j, k) (insert (0, i, j, k) D))) t3"
    using i j k by (auto simp: binop_def const_def rd[OF w2])
  have "D \<union> {(0, i, j, k), (1, i, j, k), (2, i, j, k)} =
        insert (2, i, j, k) (insert (1, i, j, k) (insert (0, i, j, k) D))" by auto
  then show ?thesis using t1 t2 t3 w3 by (simp add: E_body_def seq_def)
qed

lemma B_body_written:
  assumes w: "written s0 sh (\<lambda>p. B_next d (s0 ! e) (s0 ! b) (of_point p)) D t"
    and e: "e < length s0" and b: "b < length s0"
    and sh: "sh = shape (s0 ! b)"
    and ce: "covers (shape (s0 ! e)) n0 n1 n2" and cb: "covers (shape (s0 ! b)) n0 n1 n2"
    and i: "i < n0" and j: "j < n1" and k: "k < n2"
  shows "\<exists>t'. B_body d (length s0) e b (int i) (int j) (int k) t = (None, t') \<and>
       written s0 sh (\<lambda>p. B_next d (s0 ! e) (s0 ! b) (of_point p))
         (D \<union> {(0, i, j, k), (1, i, j, k), (2, i, j, k)}) t'"
proof -
  let ?F = "\<lambda>p. B_next d (s0 ! e) (s0 ! b) (of_point p)"
  note rd = covers_item[OF _ e ce] covers_item[OF _ b cb]
  have b0: "in_bounds sh (0, i, j, k)" and b1: "in_bounds sh (1, i, j, k)" and b2: "in_bounds sh (2, i, j, k)"
    using covers_in_bounds[OF cb _ i j k] sh by simp_all
  from written_assign[OF w b0, where rhs = "sub (item b (0, int i, int j, int k))
               (sub (mul (const (at1 d)) (sub (item e (2, int i, int j, int k)) (item e (2, int i, int j - 1, int k))))
                    (mul (const (at2 d)) (sub (item e (1, int i, int j, int k)) (item e (1, int i, int j, int k - 1)))))"]
  obtain t1 where t1: "assign_item (length s0) (0, int i, int j, int k) (sub (item b (0, int i, int j, int k))
               (sub (mul (const (at1 d)) (sub (item e (2, int i, int j, int k)) (item e (2, int i, int j - 1, int k))))
                    (mul (const (at2 d)) (sub (item e (1, int i, int j, int k)) (item e (1, int i, int j, int k - 1)))))) t = (None, t1)"
    and w1: "written s0 sh ?F (insert (0, i, j, k) D) t1"
    using i j k by (auto simp: binop_def const_def rd[OF w])
  from written_assign[OF w1 b1, where rhs = "sub (item b (1, int i, int j, int k))
               (sub (mul (const (at2 d)) (sub (item e (0, int i, int j, int k)) (item e (0, int i, int j, int k - 1))))
                    (mul (const (at0 d)) (sub (item e (2, int i, int j, int k)) (item e (2, int i - 1, int j, int k)))))"]
  obtain t2 where t2: "assign_item (length s0) (1, int i, int j, int k) (sub (item b (1, int i, int j, int k))
               (sub (mul (const (at2 d)) (sub (item e (0, int i, int j, int k)) (item e (0, int i, int j, int k - 1))))
                    (mul (const (at0 d)) (sub (item e (2, int i, int j, int k)) (item e (2, int i - 1, int j, int k)))))) t1 = (None, t2)"
    and w2: "written s0 sh ?F (insert (1, i, j, k) (insert (0, i, j, k) D)) t2"
    using i j k by (auto simp: binop_def const_def rd[OF w1])
  from written_assign[OF w2 b2, where rhs = "sub (item b (2, int i, int j, int k))
               (sub (mul (const (at0 d)) (sub (item e (1, int i, int j, int k)) (item e (1, int i - 1, int j, int k))))
                    (mul (const (at1 d)) (sub (item e (0, int i, int j, int k)) (item e (0, int i, int j - 1, int k)))))"]
  obtain t3 where t3: "assign_item (length s0) (2, int i, int j, int k) (sub (item b (2, int i, int j, int k))
               (sub (mul (const (at0 d)) (sub (item e (1, int i, int j, int k)) (item e (1, int i - 1, int j, int k))))
                    (mul (const (at1 d)) (sub (item e (0, int i, int j, int k)) (item e (0, int i, int j - 1, int k)))))) t2 = (None, t3)"
    and w3: "written s0 sh ?F (insert (2, i, j, k) (insert (1, i, j, k) (insert (0, i, j, k) D))) t3"
    using i j k by (auto simp: binop_def const_def rd[OF w2])
  have "D \<union> {(0, i, j, k), (1, i, j, k), (2, i, j, k)} =
        insert (2, i, j, k) (insert (1, i, j, k) (insert (0, i, j, k) D))" by auto
  then show ?thesis using t1 t2 t3 w3 by (simp add: B_body_def seq_def)
qed

lemma update_E_vec_written:
  assumes e: "e < length s" and b: "b < length s"
    and ce: "covers (shape (s ! e)) (nat N0) (nat N1) (nat N2)"
    and cb: "covers (shape (s ! b)) (nat N0) (nat N1) (nat N2)"
  shows "\<exists>t. update_E_vec dt h (N0, N1, N2) e b s = (Inr (length s), t) \<and>
             written s (shape (s ! e)) (\<lambda>p. E_next (true_divide dt h) (s ! e) (s ! b) (of_point p))
               (lattice (nat N0) (nat N1) (nat N2)) t"
proof -
  let ?F = "\<lambda>p. E_next (true_divide dt h) (s ! e) (s ! b) (of_point p)"
  from triple_loop[where body = "E_body (true_divide dt h) (length s) e b" and F = ?F
      and ?s0.0 = s and sh = "shape (s ! e)" and ?t0.0 = "s @ [zeros (shape (s ! e))]"
      and ?N0.0 = N0 and ?N1.0 = N1 and ?N2.0 = N2,
      OF E_body_written[OF _ e b refl ce cb] written_zeros]
  obtain t where "for_loop (range_py N0) (\<lambda>i.
               for_loop (range_py N1) (\<lambda>j.
               for_loop (range_py N2) (\<lambda>k. E_body (true_divide dt h) (length s) e b i j k)))
               (s @ [zeros (shape (s ! e))]) = (None, t)"
    and "written s (shape (s ! e)) ?F (lattice (nat N0) (nat N1) (nat N2)) t"
    by blast
  then show ?thesis
    by (simp add: update_E_vec_def alloc_def)
qed

lemma update_B_vec_written:
  assumes e: "e < length s" and b: "b < length s"
    and ce: "covers (shape (s ! e)) (nat N0) (nat N1) (nat N2)"
    and cb: "covers (shape (s ! b)) (nat N0) (nat N1) (nat N2)"
  shows "\<exists>t. update_B_vec dt h (N0, N1, N2) e b s = (Inr (length s), t) \<and>
             written s (shape (s ! b)) (\<lambda>p. B_next (true_divide dt h) (s ! e) (s ! b) (of_point p))
               (lattice (nat N0) (nat N1) (nat N2)) t"
proof -
  let ?F = "\<lambda>p. B_next (true_divide dt h) (s ! e) (s ! b) (of_point p)"
  from triple_loop[where body = "B_body (true_divide dt h) (length s) e b" and F = ?F
      and ?s0.0 = s and sh = "shape (s ! b)" and ?t0.0 = "s @ [zeros (shape (s ! b))]"
      and ?N0.0 = N0 and ?N1.0 = N1 and ?N2.0 = N2,
      OF B_body_written[OF _ e b refl ce cb] written_zeros]
  obtain t where "for_loop (range_py N0) (\<lambda>i.
               for_loop (range_py N1) (\<lambda>j.
               for_loop (range_py N2) (\<lambda>k. B_body (true_divide dt h) (length s) e b i j k)))
               (s @ [zeros (shape (s ! b))]) = (None, t)"
    and "written s (shape (s ! b)) ?F (lattice (nat N0) (nat N1) (nat N2)) t"
    by blast
  then show ?thesis
    by (simp add: update_B_vec_def alloc_def)
qed

subsection \<open>The result of an update on fields of the shape of the grid\<close>

lemma written_lattice:
  assumes w: "written s0 (3, n0, n1, n2) F (lattice n0 n1 n2) t"
  obtains a where "t = s0 @ [a]" and "shape a = (3, n0, n1, n2)"
    and "length (data a) = size_of (3, n0, n1, n2)"
    and "\<And>c i j k. 0 \<le> c \<Longrightarrow> c < 3 \<Longrightarrow> 0 < n0 \<Longrightarrow> 0 < n1 \<Longrightarrow> 0 < n2 \<Longrightarrow>
           get_periodic a (c, i, j, k) = F (wrap (3, n0, n1, n2) (c, i, j, k))"
proof -
  from w obtain a where t: "t = s0 @ [a]" and sa: "shape a = (3, n0, n1, n2)"
    and la: "length (data a) = size_of (3, n0, n1, n2)"
    and el: "\<And>p. in_bounds (3, n0, n1, n2) p \<Longrightarrow>
               data a ! offset (3, n0, n1, n2) p = (if p \<in> lattice n0 n1 n2 then F p else 0)"
    by (auto simp: written_def)
  have "get_periodic a (c, i, j, k) = F (wrap (3, n0, n1, n2) (c, i, j, k))"
    if "0 \<le> c" "c < 3" "0 < n0" "0 < n1" "0 < n2" for c i j k
  proof -
    have b: "in_bounds (3, n0, n1, n2) (wrap (3, n0, n1, n2) (c, i, j, k))"
      using that by (intro wrap_in_bounds) simp_all
    then have "wrap (3, n0, n1, n2) (c, i, j, k) \<in> lattice n0 n1 n2"
      by (simp add: lattice_def)
    with el[OF b] show ?thesis by (simp add: get_periodic_def sa)
  qed
  with t sa la show thesis by (rule that)
qed

lemma of_point_wrap:
  "0 \<le> c \<Longrightarrow> 0 < n1 \<Longrightarrow> 0 < n2 \<Longrightarrow> 0 < n3 \<Longrightarrow> of_point (wrap (n0, n1, n2, n3) (c, i, j, k)) = (c, i mod int n1, j mod int n2, k mod int n3)"
  by simp

lemma covers_exact: "covers (3, n0, n1, n2) n0 n1 n2"
  by (simp add: covers_def)

lemma update_E_vec_exact:
  assumes e: "e < length s" and b: "b < length s"
    and se: "shape (s ! e) = (3, nat N0, nat N1, nat N2)"
    and sb: "shape (s ! b) = (3, nat N0, nat N1, nat N2)"
  shows "\<exists>a. update_E_vec dt h (N0, N1, N2) e b s = (Inr (length s), s @ [a]) \<and>
    shape a = (3, nat N0, nat N1, nat N2) \<and>
    length (data a) = size_of (3, nat N0, nat N1, nat N2) \<and>
    (\<forall>c i j k. 0 \<le> c \<longrightarrow> c < 3 \<longrightarrow> 0 < N0 \<longrightarrow> 0 < N1 \<longrightarrow> 0 < N2 \<longrightarrow>
           get_periodic a (c, i, j, k) =
             E_next (true_divide dt h) (s ! e) (s ! b) (c, i mod N0, j mod N1, k mod N2))"
proof -
  from update_E_vec_written[OF e b, of N0 N1 N2 dt h] se sb
  obtain t where r: "update_E_vec dt h (N0, N1, N2) e b s = (Inr (length s), t)"
    and w: "written s (3, nat N0, nat N1, nat N2)
              (\<lambda>p. E_next (true_divide dt h) (s ! e) (s ! b) (of_point p))
              (lattice (nat N0) (nat N1) (nat N2)) t"
    by (auto simp: covers_exact)
  from written_lattice[OF w] obtain a where a: "t = s @ [a]" "shape a = (3, nat N0, nat N1, nat N2)"
    "length (data a) = size_of (3, nat N0, nat N1, nat N2)"
    and g: "\<And>c i j k. 0 \<le> c \<Longrightarrow> c < 3 \<Longrightarrow> 0 < nat N0 \<Longrightarrow> 0 < nat N1 \<Longrightarrow> 0 < nat N2 \<Longrightarrow>
           get_periodic a (c, i, j, k) =
             E_next (true_divide dt h) (s ! e) (s ! b)
               (of_point (wrap (3, nat N0, nat N1, nat N2) (c, i, j, k)))"
    by blast
  have "get_periodic a (c, i, j, k) =
          E_next (true_divide dt h) (s ! e) (s ! b) (c, i mod N0, j mod N1, k mod N2)"
    if "0 \<le> c" "c < 3" "0 < N0" "0 < N1" "0 < N2" for c i j k
    using g[of c i j k] that by (simp add: of_point_wrap del: wrap.simps of_point.simps E_next.simps B_next.simps)
  with r a show ?thesis by blast
qed

lemma update_B_vec_exact:
  assumes e: "e < length s" and b: "b < length s"
    and se: "shape (s ! e) = (3, nat N0, nat N1, nat N2)"
    and sb: "shape (s ! b) = (3, nat N0, nat N1, nat N2)"
  shows "\<exists>a. update_B_vec dt h (N0, N1, N2) e b s = (Inr (length s), s @ [a]) \<and>
    shape a = (3, nat N0, nat N1, nat N2) \<and>
    length (data a) = size_of (3, nat N0, nat N1, nat N2) \<and>
    (\<forall>c i j k. 0 \<le> c \<longrightarrow> c < 3 \<longrightarrow> 0 < N0 \<longrightarrow> 0 < N1 \<longrightarrow> 0 < N2 \<longrightarrow>
           get_periodic a (c, i, j, k) =
             B_next (true_divide dt h) (s ! e) (s ! b) (c, i mod N0, j mod N1, k mod N2))"
proof -
  from update_B_vec_written[OF e b, of N0 N1 N2 dt h] se sb
  obtain t where r: "update_B_vec dt h (N0, N1, N2) e b s = (Inr (length s), t)"
    and w: "written s (3, nat N0, nat N1, nat N2)
              (\<lambda>p. B_next (true_divide dt h) (s ! e) (s ! b) (of_point p))
              (lattice (nat N0) (nat N1) (nat N2)) t"
    by (auto simp: covers_exact)
  from written_lattice[OF w] obtain a where a: "t = s @ [a]" "shape a = (3, nat N0, nat N1, nat N2)"
    "length (data a) = size_of (3, nat N0, nat N1, nat N2)"
    and g: "\<And>c i j k. 0 \<le> c \<Longrightarrow> c < 3 \<Longrightarrow> 0 < nat N0 \<Longrightarrow> 0 < nat N1 \<Longrightarrow> 0 < nat N2 \<Longrightarrow>
           get_periodic a (c, i, j, k) =
             B_next (true_divide dt h) (s ! e) (s ! b)
               (of_point (wrap (3, nat N0, nat N1, nat N2) (c, i, j, k)))"
    by blast
  have "get_periodic a (c, i, j, k) =
          B_next (true_divide dt h) (s ! e) (s ! b) (c, i mod N0, j mod N1, k mod N2)"
    if "0 \<le> c" "c < 3" "0 < N0" "0 < N1" "0 < N2" for c i j k
    using g[of c i j k] that by (simp add: of_point_wrap del: wrap.simps of_point.simps E_next.simps B_next.simps)
  with r a show ?thesis by blast
qed


lemma getitem_lattice:
  assumes "shape a = (3, nat N0, nat N1, nat N2)"
    and "0 \<le> c" "c < 3" "0 \<le> i" "i < N0" "0 \<le> j" "j < N1" "0 \<le> k" "k < N2"
  shows "getitem a (c, i, j, k) = Inr (get_periodic a (c, i, j, k))"
proof (rule getitem_periodic[OF assms(1)])
  show "0 \<le> c" by fact
  show "c < int 3" using assms(3) by simp
  show "- int (nat N0) \<le> i" using assms(4) by simp
  show "i < int (nat N0)" using assms(5) by simp
  show "- int (nat N1) \<le> j" using assms(6) by simp
  show "j < int (nat N1)" using assms(7) by simp
  show "- int (nat N2) \<le> k" using assms(8) by simp
  show "k < int (nat N2)" using assms(9) by simp
qed

subsection \<open>Indices of negative or out-of-range value\<close>

lemma norm_index_outside:
  "\<not> (- int n \<le> i \<and> i < int n) \<Longrightarrow> norm_index n i = Inl IndexError"
  by (auto simp: norm_index_def)

lemma norm_index_last: "norm_index n (- 1) = norm_index n (int n - 1)"
  by (cases "n = 0") (simp_all add: norm_index_def)

lemma norm_index_cases:
  "norm_index n i = (if - int n \<le> i \<and> i < int n then Inr (nat (i mod int n)) else Inl IndexError)"
  using norm_index_mod[of n i] norm_index_outside[of n i] by auto

subsection \<open>What both updates keep, also when they raise\<close>

lemma keeps_assign_item: "keeps (grown s0 sh) (assign_item (length s0) idx rhs)"
proof -
  have "grown s0 sh t'" if g: "grown s0 sh t" and r: "assign_item (length s0) idx rhs t = (r, t')" for t r t'
  proof -
    from g obtain a where t: "t = s0 @ [a]" and sa: "shape a = sh" by (auto simp: grown_def)
    show ?thesis
    proof (cases "rhs t")
      case (Inl e)
      then show ?thesis using r g by (simp add: assign_item_def)
    next
      case (Inr v)
      show ?thesis
      proof (cases "locate (shape a) idx")
        case (Inl e)
        then show ?thesis using r g Inr t by (simp add: assign_item_def setitem_def)
      next
        case (Inr p)
        then show ?thesis using r \<open>rhs t = Inr v\<close> t sa
          by (auto simp: assign_item_def setitem_def grown_def)
      qed
    qed
  qed
  then show ?thesis unfolding keeps_def by blast
qed

lemma keeps_seq:
  assumes "keeps P p" and "keeps P q"
  shows "keeps P (seq p q)"
proof -
  have "P t'" if "P t" and s: "seq p q t = (r, t')" for t r t'
  proof (cases "p t")
    case (Pair r1 t1)
    then have p1: "P t1" using assms(1) that(1) unfolding keeps_def by blast
    show ?thesis
    proof (cases r1)
      case None
      then have "q t1 = (r, t')" using s Pair by (simp add: seq_def)
      then show ?thesis using assms(2) p1 unfolding keeps_def by blast
    next
      case (Some e)
      then have "t' = t1" using s Pair by (simp add: seq_def)
      then show ?thesis using p1 by simp
    qed
  qed
  then show ?thesis unfolding keeps_def by blast
qed

lemma keeps_for_loop:
  assumes "\<And>x. keeps P (body x)"
  shows "keeps P (for_loop xs body)"
proof -
  have "P s \<Longrightarrow> for_loop xs body s = (r, s') \<Longrightarrow> P s'" for s r s'
  proof (induction xs arbitrary: s)
    case Nil
    then show ?case by simp
  next
    case (Cons x xs)
    obtain r1 s1 where b: "body x s = (r1, s1)" by (cases "body x s")
    then have p: "P s1" using assms Cons.prems(1) unfolding keeps_def by blast
    show ?case
    proof (cases r1)
      case None
      then show ?thesis using Cons.IH[OF p] Cons.prems(2) b by simp
    next
      case (Some e)
      then show ?thesis using Cons.prems(2) b p by simp
    qed
  qed
  then show ?thesis unfolding keeps_def by blast
qed

lemma keeps_E_body: "keeps (grown s0 sh) (E_body d (length s0) e b i j k)"
  unfolding E_body_def by (intro keeps_seq keeps_assign_item)

lemma keeps_B_body: "keeps (grown s0 sh) (B_body d (length s0) e b i j k)"
  unfolding B_body_def by (intro keeps_seq keeps_assign_item)

lemma triple_loop_grown:
  assumes "\<And>i j k. keeps (grown s0 sh) (body i j k)"
    and "for_loop xs (\<lambda>i. for_loop ys (\<lambda>j. for_loop zs (\<lambda>k. body i j k))) (s0 @ [a]) = (r, t)"
    and "shape a = sh"
  shows "\<exists>a'. t = s0 @ [a'] \<and> shape a' = sh"
proof -
  have "keeps (grown s0 sh) (for_loop xs (\<lambda>i. for_loop ys (\<lambda>j. for_loop zs (\<lambda>k. body i j k))))"
    by (intro keeps_for_loop assms(1))
  moreover have "grown s0 sh (s0 @ [a])" using assms(3) by (auto simp: grown_def)
  ultimately have "grown s0 sh t" using assms(2) unfolding keeps_def by blast
  then show ?thesis by (simp add: grown_def)
qed

lemma update_E_vec_grown:
  "\<exists>r a. update_E_vec dt h N e b s = (r, s @ [a]) \<and> shape a = shape (s ! e) \<and>
         (r = Inr (length s) \<or> r = Inl IndexError)"
proof -
  let ?loop = "for_loop (range_py (at0 N)) (\<lambda>i. for_loop (range_py (at1 N)) (\<lambda>j.
      for_loop (range_py (at2 N)) (\<lambda>k. E_body (true_divide dt h) (length s) e b i j k)))
      (s @ [zeros (shape (s ! e))])"
  obtain r t where l: "?loop = (r, t)" by (cases ?loop)
  from triple_loop_grown[OF keeps_E_body l] obtain a where "t = s @ [a]" "shape a = shape (s ! e)"
    by (auto simp: zeros_def)
  moreover have "r = None \<or> r = Some IndexError"
    by (cases r) (auto intro: error.exhaust[of _ "_ = IndexError"])
  ultimately show ?thesis using l
    by (auto simp: update_E_vec_def alloc_def)
qed

lemma update_B_vec_grown:
  "\<exists>r a. update_B_vec dt h N e b s = (r, s @ [a]) \<and> shape a = shape (s ! b) \<and>
         (r = Inr (length s) \<or> r = Inl IndexError)"
proof -
  let ?loop = "for_loop (range_py (at0 N)) (\<lambda>i. for_loop (range_py (at1 N)) (\<lambda>j.
      for_loop (range_py (at2 N)) (\<lambda>k. B_body (true_divide dt h) (length s) e b i j k)))
      (s @ [zeros (shape (s ! b))])"
  obtain r t where l: "?loop = (r, t)" by (cases ?loop)
  from triple_loop_grown[OF keeps_B_body l] obtain a where "t = s @ [a]" "shape a = shape (s ! b)"
    by (auto simp: zeros_def)
  moreover have "r = None \<or> r = Some IndexError"
    by (cases r) (auto intro: error.exhaust[of _ "_ = IndexError"])
  ultimately show ?thesis using l
    by (auto simp: update_B_vec_def alloc_def)
qed

subsection \<open>The time loop\<close>

lemma for_loop_append:
  "for_loop (xs @ ys) body s =
     (case for_loop xs body s of (Some e, s') \<Rightarrow> (Some e, s') | (None, s') \<Rightarrow> for_loop ys body s')"
proof (induction xs arbitrary: s)
  case Nil
  show ?case by simp
next
  case (Cons x xs)
  obtain r1 s1 where b: "body x s = (r1, s1)" by (cases "body x s")
  show ?case
  proof (cases r1)
    case None
    then show ?thesis using b Cons.IH[of s1] by simp
  next
    case (Some e)
    then show ?thesis using b by simp
  qed
qed

lemma range_py_Suc: "range_py (int (Suc M)) = range_py (int M) @ [int M]"
  unfolding range_py_def nat_int by simp

lemma time_body_unfold:
  "time_body dt h N k ((E, B), s) =
     (case update_E_vec dt h N E B s of
        (Inl e, s1) \<Rightarrow> (Some e, ((E, B), s1))
      | (Inr E', s1) \<Rightarrow>
          (case update_B_vec dt h N E' B s1 of
             (Inl e, s2) \<Rightarrow> (Some e, ((E', B), s2))
           | (Inr B', s2) \<Rightarrow> (None, ((E', B'), s2))))"
  by (simp add: time_body_def)

subsection \<open>The formulas under scaling, on zero fields and against each other\<close>

lemma component_cases: "0 \<le> c \<Longrightarrow> c < 3 \<Longrightarrow> c = 0 \<or> c = 1 \<or> c = (2::int)"
  by arith

lemma B_next_E_next:
  assumes "0 \<le> c" and "c < 3"
  shows "B_next d E B (c, i, j, k) =
           get_periodic B (c, i, j, k) - (E_next d Z E (c, i, j, k) - get_periodic Z (c, i, j, k))"
  using component_cases[OF assms] by (elim disjE) simp_all








subsection \<open>Rounded arithmetic: the exact case and zero fields\<close>

lemma binop_r_id: "binop_r (\<lambda>v. v) f = binop f"
  by (intro ext) (simp add: binop_r_def binop_def)

lemma true_divide_r_id: "true_divide_r (\<lambda>v. v) dt h = true_divide dt h"
  by (cases h) simp

lemma E_body_r_id: "E_body_r (\<lambda>v. v) = E_body"
  by (intro ext) (simp add: E_body_r_def E_body_def binop_r_id)

lemma B_body_r_id: "B_body_r (\<lambda>v. v) = B_body"
  by (intro ext) (simp add: B_body_r_def B_body_def binop_r_id)

lemma update_E_vec_r_id: "update_E_vec_r (\<lambda>v. v) = update_E_vec"
  by (intro ext) (simp add: update_E_vec_r_def update_E_vec_def E_body_r_id true_divide_r_id)

lemma update_B_vec_r_id: "update_B_vec_r (\<lambda>v. v) = update_B_vec"
  by (intro ext) (simp add: update_B_vec_r_def update_B_vec_def B_body_r_id true_divide_r_id)

lemma time_body_r_id: "time_body_r (\<lambda>v. v) = time_body"
  by (intro ext) (simp only: time_body_r_def time_body_def update_E_vec_r_id update_B_vec_r_id)









section \<open>The claims\<close>





text \<open>
  C3. For every step count \<open>M \<ge> 0\<close> the time loop of the notebook is the Time-Stepper:
  it makes exactly \<open>M\<close> passes, each pass is the E-Update followed by the B-Update called
  with the \<open>E\<close> just produced, and the loop ends with the pair \<open>(E, B)\<close> of the last pass
  (an update that raises ends both in the same state).
\<close>

theorem time_iteration_leapfrog:
  "time_iteration dt h N (int M) env = leapfrog dt h N M env"
proof (induction M)
  case 0
  show ?case by (simp add: time_iteration_def range_py_def)
next
  case (Suc M)
  obtain r env' where l: "leapfrog dt h N M env = (r, env')" by (cases "leapfrog dt h N M env")
  have t: "for_loop (range_py (int M)) (time_body dt h N) env = (r, env')"
    using Suc l by (simp add: time_iteration_def)
  show ?case
  proof (cases r)
    case (Some e)
    then show ?thesis using l t
      by (simp add: time_iteration_def range_py_Suc for_loop_append del: of_nat_Suc)
  next
    case None
    obtain E B s where e: "env' = ((E, B), s)" by (cases env') auto
    obtain r2 env2 where b: "time_body dt h N (int M) ((E, B), s) = (r2, env2)"
      by (cases "time_body dt h N (int M) ((E, B), s)")
    have "time_iteration dt h N (int (Suc M)) env = (r2, env2)"
      using None t e b
      by (cases r2) (simp_all add: time_iteration_def range_py_Suc for_loop_append del: of_nat_Suc)
    moreover have "leapfrog dt h N (Suc M) env = (r2, env2)"
      using None l e b[unfolded time_body_unfold] by simp
    ultimately show ?thesis by simp
  qed
qed

theorem time_iteration_leapfrog_witness:
  "time_iteration 1 (2, 2, 2) (2, 1, 1) 2 ((0, 1), [E_ex, B_ex]) =
     (None, (4, 5),
      [E_ex, B_ex,
       \<lparr>shape = (3, 2, 1, 1), data = [1, 2, 5 / 2, 9 / 2, 5, 6]\<rparr>,
       \<lparr>shape = (3, 2, 1, 1), data = [0, 0, - (1 / 2), 1 / 2, 2, - 1]\<rparr>,
       \<lparr>shape = (3, 2, 1, 1), data = [1, 2, 1, 6, 9 / 2, 13 / 2]\<rparr>,
       \<lparr>shape = (3, 2, 1, 1), data = [0, 0, - (3 / 2), 3 / 2, 9 / 2, - (7 / 2)]\<rparr>])"
proof -
  have "leapfrog 1 (2, 2, 2) (2, 1, 1) 2 ((0, 1), [E_ex, B_ex]) =
     (None, (4, 5),
      [E_ex, B_ex,
       \<lparr>shape = (3, 2, 1, 1), data = [1, 2, 5 / 2, 9 / 2, 5, 6]\<rparr>,
       \<lparr>shape = (3, 2, 1, 1), data = [0, 0, - (1 / 2), 1 / 2, 2, - 1]\<rparr>,
       \<lparr>shape = (3, 2, 1, 1), data = [1, 2, 1, 6, 9 / 2, 13 / 2]\<rparr>,
       \<lparr>shape = (3, 2, 1, 1), data = [0, 0, - (3 / 2), 3 / 2, 9 / 2, - (7 / 2)]\<rparr>])"
    by code_simp
  then show ?thesis
    using time_iteration_leapfrog[of 1 "(2, 2, 2)" "(2, 1, 1)" 2 "((0, 1), [E_ex, B_ex])"] by simp
qed

text \<open>
  C4 (as amended). Element access takes an index \<open>i\<close> along an axis of length \<open>n\<close> only for
  \<open>-n \<le> i < n\<close>, and then reads the element at \<open>i mod n\<close>; any other index raises
  \<^verbatim>\<open>IndexError\<close>. In particular, along every axis the index \<open>-1\<close> reads the same element
  as the index \<open>n - 1\<close>. The claim as written lets any integer in; the counterexample below
  is the index \<open>2\<close> on an axis of length 2.
\<close>

theorem getitem_wraps_once:
  assumes "shape a = (n0, n1, n2, n3)" and "0 \<le> c" and "c < int n0"
  shows "getitem a (c, i, j, k) =
           (if - int n1 \<le> i \<and> i < int n1 \<and> - int n2 \<le> j \<and> j < int n2 \<and> - int n3 \<le> k \<and> k < int n3
            then Inr (get_periodic a (c, i, j, k)) else Inl IndexError) \<and>
         getitem a (c, - 1, j, k) = getitem a (c, int n1 - 1, j, k) \<and>
         getitem a (c, i, - 1, k) = getitem a (c, i, int n2 - 1, k) \<and>
         getitem a (c, i, j, - 1) = getitem a (c, i, j, int n3 - 1)"
proof -
  have "norm_index n0 c = Inr (nat c)" using assms(2,3) by (simp add: norm_index_def)
  then have "getitem a (c, i, j, k) =
           (if - int n1 \<le> i \<and> i < int n1 \<and> - int n2 \<le> j \<and> j < int n2 \<and> - int n3 \<le> k \<and> k < int n3
            then Inr (get_periodic a (c, i, j, k)) else Inl IndexError)"
    using assms(1) by (simp add: getitem_def get_periodic_def norm_index_cases)
  moreover have "getitem a (c, - 1, j, k) = getitem a (c, int n1 - 1, j, k)"
    and "getitem a (c, i, - 1, k) = getitem a (c, i, int n2 - 1, k)"
    and "getitem a (c, i, j, - 1) = getitem a (c, i, j, int n3 - 1)"
    by (simp_all only: getitem_def assms(1) locate.simps norm_index_last)
  ultimately show ?thesis by (intro conjI)
qed

theorem getitem_wraps_once_witness:
  "getitem E_ex (1, - 1, 0, 0) = Inr 4 \<and> getitem E_ex (1, 1, 0, 0) = Inr 4 \<and>
   getitem E_ex (1, - 2, 0, 0) = Inr 3 \<and> getitem E_ex (1, - 3, 0, 0) = Inl IndexError"
  using getitem_wraps_once[where a = E_ex and c = 1 and ?n0.0 = 3 and ?n1.0 = 2 and ?n2.0 = 1 and ?n3.0 = 1
      and i = "- 1" and j = 0 and k = 0]
    getitem_wraps_once[where a = E_ex and c = 1 and ?n0.0 = 3 and ?n1.0 = 2 and ?n2.0 = 1 and ?n3.0 = 1
      and i = "- 2" and j = 0 and k = 0]
    getitem_wraps_once[where a = E_ex and c = 1 and ?n0.0 = 3 and ?n1.0 = 2 and ?n2.0 = 1 and ?n3.0 = 1
      and i = "- 3" and j = 0 and k = 0]
  by (simp add: E_ex_def get_periodic_def)

theorem getitem_any_integer_counterexample:
  "getitem E_ex (0, 2, 0, 0) = Inl IndexError \<and> get_periodic E_ex (0, 2, 0, 0) = 1 \<and>
   getitem E_ex (0, 0, 0, 0) = Inr 1"
  by (simp add: E_ex_def getitem_def get_periodic_def norm_index_def)

text \<open>
  C5 (as amended). \<^verbatim>\<open>update_E_vec\<close> checks none of its arguments. For every \<open>dt\<close> and \<open>h\<close>,
  of any sign, and all fields \<open>E\<close> and \<open>B\<close>, of the same shape or not, that have at least
  three components and at least \<open>N[d]\<close> points along each axis \<open>d\<close>, the call returns a
  complete new field of the shape of \<open>E\<close>. The counterexample below runs it on fields of
  different shapes, on a negative \<open>dt\<close> and negative spacings, where it returns a field,
  and on a \<open>B\<close> smaller than \<open>N\<close>, where it raises \<^verbatim>\<open>IndexError\<close> in the middle of the
  traversal, the output array allocated and half written.
\<close>

theorem update_E_vec_no_validation:
  assumes "E_vec < length s" and "B_vec < length s"
    and "shape (s ! E_vec) = (cE, e0, e1, e2)" and "3 \<le> cE"
    and "N0 \<le> int e0" and "N1 \<le> int e1" and "N2 \<le> int e2"
    and "shape (s ! B_vec) = (cB, b0, b1, b2)" and "3 \<le> cB"
    and "N0 \<le> int b0" and "N1 \<le> int b1" and "N2 \<le> int b2"
  shows "\<exists>E_vec_new.
           update_E_vec dt h (N0, N1, N2) E_vec B_vec s = (Inr (length s), s @ [E_vec_new]) \<and>
           shape E_vec_new = (cE, e0, e1, e2)"
proof -
  have ce: "covers (shape (s ! E_vec)) (nat N0) (nat N1) (nat N2)"
    using assms(3-7) by (simp add: covers_def nat_le_iff)
  have cb: "covers (shape (s ! B_vec)) (nat N0) (nat N1) (nat N2)"
    using assms(8-12) by (simp add: covers_def nat_le_iff)
  from update_E_vec_written[OF assms(1,2) ce cb, of dt h]
  obtain t where r: "update_E_vec dt h (N0, N1, N2) E_vec B_vec s = (Inr (length s), t)"
    and w: "written s (shape (s ! E_vec))
              (\<lambda>p. E_next (true_divide dt h) (s ! E_vec) (s ! B_vec) (of_point p))
              (lattice (nat N0) (nat N1) (nat N2)) t"
    by blast
  from w obtain a where "t = s @ [a]" "shape a = shape (s ! E_vec)"
    unfolding written_def by blast
  then show ?thesis using r assms(3) by simp
qed

theorem update_E_vec_no_validation_witness:
  "\<exists>E_vec_new.
     update_E_vec (- 1) (- 2, - 2, - 2) (1, 1, 1) 0 1 [E_small, B_ex] =
       (Inr (length [E_small, B_ex]), [E_small, B_ex] @ [E_vec_new]) \<and>
     shape E_vec_new = (3, 1, 1, 1)"
  by (rule update_E_vec_no_validation[where cB = 3 and ?b0.0 = 2 and ?b1.0 = 1 and ?b2.0 = 1])
     (simp_all add: E_small_def B_ex_def)

theorem update_E_vec_rejects_counterexample:
  "update_E_vec (- 1) (1, 1, 1) (1, 1, 1) 0 1 [E_small, B_ex] =
     (Inr 2, [E_small, B_ex, \<lparr>shape = (3, 1, 1, 1), data = [1, 3, 3]\<rparr>]) \<and>
   update_E_vec (- 1) (- 2, - 2, - 2) (2, 1, 1) 0 1 [E_ex, B_ex] =
     (Inr 2, [E_ex, B_ex, \<lparr>shape = (3, 2, 1, 1), data = [1, 2, 5 / 2, 9 / 2, 5, 6]\<rparr>]) \<and>
   update_E_vec 1 (1, 1, 1) (2, 1, 1) 0 1 [E_ex, E_small] =
     (Inl IndexError, [E_ex, E_small, \<lparr>shape = (3, 2, 1, 1), data = [1, 0, 3, 0, 5, 0]\<rparr>])"
  by code_simp




text \<open>
  C7. The order of the two updates matters: there is an input with a nonzero discrete
  curl (the E-Update changes \<open>E\<close>) on which the pass of the notebook, E-Update then
  B-Update, and the pass with the two calls exchanged end with different pairs \<open>(E, B)\<close>.
  The input is the grid \<open>N = (2, 1, 1)\<close> with \<open>dt = 1\<close>, \<open>h = (2, 2, 2)\<close> and the fields
  \<open>E_ex\<close>, \<open>B_ex\<close>.
\<close>

theorem update_order_matters:
  "\<exists>dt h N E_vec B_vec s E1 B1 s1 E2 B2 s2.
     time_body dt h N 0 ((E_vec, B_vec), s) = (None, ((E1, B1), s1)) \<and>
     swapped_body dt h N 0 ((E_vec, B_vec), s) = (None, ((E2, B2), s2)) \<and>
     s1 ! E1 \<noteq> s ! E_vec \<and>
     (s1 ! E1, s1 ! B1) \<noteq> (s2 ! E2, s2 ! B2)"
proof -
  have a: "time_body 1 (2, 2, 2) (2, 1, 1) 0 ((0, 1), [E_ex, B_ex]) =
      (None, ((2, 3),
        [E_ex, B_ex,
         \<lparr>shape = (3, 2, 1, 1), data = [1, 2, 5 / 2, 9 / 2, 5, 6]\<rparr>,
         \<lparr>shape = (3, 2, 1, 1), data = [0, 0, - (1 / 2), 1 / 2, 2, - 1]\<rparr>]))"
    by code_simp
  have b: "swapped_body 1 (2, 2, 2) (2, 1, 1) 0 ((0, 1), [E_ex, B_ex]) =
      (None, ((3, 2),
        [E_ex, B_ex,
         \<lparr>shape = (3, 2, 1, 1), data = [0, 0, - (1 / 2), 1 / 2, 3 / 2, - (1 / 2)]\<rparr>,
         \<lparr>shape = (3, 2, 1, 1), data = [1, 2, 2, 5, 9 / 2, 13 / 2]\<rparr>]))"
    by code_simp
  have c: "[E_ex, B_ex,
         \<lparr>shape = (3, 2, 1, 1), data = [1, 2, 5 / 2, 9 / 2, 5, 6]\<rparr>,
         \<lparr>shape = (3, 2, 1, 1), data = [0, 0, - (1 / 2), 1 / 2, 2, - 1]\<rparr>] ! 2 \<noteq> [E_ex, B_ex] ! 0"
    by (simp add: E_ex_def)
  have d: "([E_ex, B_ex,
         \<lparr>shape = (3, 2, 1, 1), data = [1, 2, 5 / 2, 9 / 2, 5, 6]\<rparr>,
         \<lparr>shape = (3, 2, 1, 1), data = [0, 0, - (1 / 2), 1 / 2, 2, - 1]\<rparr>] ! 2,
        [E_ex, B_ex,
         \<lparr>shape = (3, 2, 1, 1), data = [1, 2, 5 / 2, 9 / 2, 5, 6]\<rparr>,
         \<lparr>shape = (3, 2, 1, 1), data = [0, 0, - (1 / 2), 1 / 2, 2, - 1]\<rparr>] ! 3) \<noteq>
       ([E_ex, B_ex,
         \<lparr>shape = (3, 2, 1, 1), data = [0, 0, - (1 / 2), 1 / 2, 3 / 2, - (1 / 2)]\<rparr>,
         \<lparr>shape = (3, 2, 1, 1), data = [1, 2, 2, 5, 9 / 2, 13 / 2]\<rparr>] ! 3,
        [E_ex, B_ex,
         \<lparr>shape = (3, 2, 1, 1), data = [0, 0, - (1 / 2), 1 / 2, 3 / 2, - (1 / 2)]\<rparr>,
         \<lparr>shape = (3, 2, 1, 1), data = [1, 2, 2, 5, 9 / 2, 13 / 2]\<rparr>] ! 2)"
    by simp
  from a b c d show ?thesis by blast
qed

text \<open>
  C8. \<^verbatim>\<open>update_E_vec\<close> and \<^verbatim>\<open>update_B_vec\<close> write only into the array they allocate: whether
  the call returns or raises, the store after it is the store before it with one new
  array at a fresh reference, of the shape of \<open>E\<close> (of \<open>B\<close> for the B-Update); the arrays
  \<open>E\<close> and \<open>B\<close>, and every other array of the store, are the same as before, and a
  returned reference is the fresh one.
\<close>

theorem updates_leave_inputs:
  assumes "E_vec < length s" and "B_vec < length s"
  shows "(\<exists>r s'. update_E_vec dt h N E_vec B_vec s = (r, s') \<and>
            s' ! E_vec = s ! E_vec \<and> s' ! B_vec = s ! B_vec \<and> take (length s) s' = s \<and>
            length s' = Suc (length s) \<and> shape (s' ! length s) = shape (s ! E_vec) \<and>
            (r = Inr (length s) \<or> r = Inl IndexError)) \<and>
         (\<exists>r s'. update_B_vec dt h N E_vec B_vec s = (r, s') \<and>
            s' ! E_vec = s ! E_vec \<and> s' ! B_vec = s ! B_vec \<and> take (length s) s' = s \<and>
            length s' = Suc (length s) \<and> shape (s' ! length s) = shape (s ! B_vec) \<and>
            (r = Inr (length s) \<or> r = Inl IndexError))"
proof
  from update_E_vec_grown[of dt h N E_vec B_vec s] obtain r a where
    "update_E_vec dt h N E_vec B_vec s = (r, s @ [a])" "shape a = shape (s ! E_vec)"
    "r = Inr (length s) \<or> r = Inl IndexError" by blast
  then show "\<exists>r s'. update_E_vec dt h N E_vec B_vec s = (r, s') \<and>
            s' ! E_vec = s ! E_vec \<and> s' ! B_vec = s ! B_vec \<and> take (length s) s' = s \<and>
            length s' = Suc (length s) \<and> shape (s' ! length s) = shape (s ! E_vec) \<and>
            (r = Inr (length s) \<or> r = Inl IndexError)"
    using assms by (intro exI[of _ r] exI[of _ "s @ [a]"]) (simp add: nth_append)
next
  from update_B_vec_grown[of dt h N E_vec B_vec s] obtain r a where
    "update_B_vec dt h N E_vec B_vec s = (r, s @ [a])" "shape a = shape (s ! B_vec)"
    "r = Inr (length s) \<or> r = Inl IndexError" by blast
  then show "\<exists>r s'. update_B_vec dt h N E_vec B_vec s = (r, s') \<and>
            s' ! E_vec = s ! E_vec \<and> s' ! B_vec = s ! B_vec \<and> take (length s) s' = s \<and>
            length s' = Suc (length s) \<and> shape (s' ! length s) = shape (s ! B_vec) \<and>
            (r = Inr (length s) \<or> r = Inl IndexError)"
    using assms by (intro exI[of _ r] exI[of _ "s @ [a]"]) (simp add: nth_append)
qed

theorem updates_leave_inputs_witness:
  "(\<exists>r s'. update_E_vec 1 (2, 2, 2) (2, 1, 1) 0 1 [E_ex, B_ex] = (r, s') \<and>
       s' ! 0 = [E_ex, B_ex] ! 0 \<and> s' ! 1 = [E_ex, B_ex] ! 1 \<and>
       take (length [E_ex, B_ex]) s' = [E_ex, B_ex] \<and>
       length s' = Suc (length [E_ex, B_ex]) \<and>
       shape (s' ! length [E_ex, B_ex]) = shape ([E_ex, B_ex] ! 0) \<and>
       (r = Inr (length [E_ex, B_ex]) \<or> r = Inl IndexError)) \<and>
   (\<exists>r s'. update_B_vec 1 (2, 2, 2) (2, 1, 1) 0 1 [E_ex, B_ex] = (r, s') \<and>
       s' ! 0 = [E_ex, B_ex] ! 0 \<and> s' ! 1 = [E_ex, B_ex] ! 1 \<and>
       take (length [E_ex, B_ex]) s' = [E_ex, B_ex] \<and>
       length s' = Suc (length [E_ex, B_ex]) \<and>
       shape (s' ! length [E_ex, B_ex]) = shape ([E_ex, B_ex] ! 1) \<and>
       (r = Inr (length [E_ex, B_ex]) \<or> r = Inl IndexError))"
  by (rule updates_leave_inputs) simp_all

text \<open>
  C10. The two updates apply the same backward-difference curl with opposite signs: on
  fields of the shape of the grid and with \<open>Z\<close> the zero field of that shape,
  \<open>B-Update(E, B) = B - (E-Update(Z, E) - Z)\<close> at every lattice point and component, where
  \<open>E-Update(Z, E)\<close> is \<^verbatim>\<open>update_E_vec\<close> called with \<open>Z\<close> as its \<open>E\<close> and \<open>E\<close> as its \<open>B\<close>.
\<close>

theorem update_B_vec_is_negated_E_increment:
  assumes "E_vec < length s" and "B_vec < length s" and "Z < length s"
    and "shape (s ! E_vec) = (3, nat N0, nat N1, nat N2)"
    and "shape (s ! B_vec) = (3, nat N0, nat N1, nat N2)"
    and "s ! Z = zeros (3, nat N0, nat N1, nat N2)"
    and "0 \<le> c" "c < 3" "0 \<le> i" "i < N0" "0 \<le> j" "j < N1" "0 \<le> k" "k < N2"
  shows "\<exists>B_vec_new D x y.
      update_B_vec dt h (N0, N1, N2) E_vec B_vec s = (Inr (length s), s @ [B_vec_new]) \<and>
      update_E_vec dt h (N0, N1, N2) Z E_vec s = (Inr (length s), s @ [D]) \<and>
      getitem B_vec_new (c, i, j, k) = Inr x \<and> getitem D (c, i, j, k) = Inr y \<and>
      x = get_periodic (s ! B_vec) (c, i, j, k) - (y - get_periodic (s ! Z) (c, i, j, k))"
proof -
  have sz: "shape (s ! Z) = (3, nat N0, nat N1, nat N2)" using assms(6) by (simp add: zeros_def)
  have pos: "0 < N0" "0 < N1" "0 < N2" using assms(9-14) by simp_all
  have m: "i mod N0 = i" "j mod N1 = j" "k mod N2 = k" using assms(9-14) by simp_all
  from update_B_vec_exact[OF assms(1,2,4,5), of dt h]
  obtain a where ra: "update_B_vec dt h (N0, N1, N2) E_vec B_vec s = (Inr (length s), s @ [a])"
    and sa: "shape a = (3, nat N0, nat N1, nat N2)"
    and ga: "\<And>c i j k. 0 \<le> c \<Longrightarrow> c < 3 \<Longrightarrow> 0 < N0 \<Longrightarrow> 0 < N1 \<Longrightarrow> 0 < N2 \<Longrightarrow>
           get_periodic a (c, i, j, k) =
             B_next (true_divide dt h) (s ! E_vec) (s ! B_vec) (c, i mod N0, j mod N1, k mod N2)"
    by (elim exE conjE) (rule that, assumption+, simp)
  from update_E_vec_exact[OF assms(3,1) sz assms(4), of dt h]
  obtain d where rd: "update_E_vec dt h (N0, N1, N2) Z E_vec s = (Inr (length s), s @ [d])"
    and sd: "shape d = (3, nat N0, nat N1, nat N2)"
    and gd: "\<And>c i j k. 0 \<le> c \<Longrightarrow> c < 3 \<Longrightarrow> 0 < N0 \<Longrightarrow> 0 < N1 \<Longrightarrow> 0 < N2 \<Longrightarrow>
           get_periodic d (c, i, j, k) =
             E_next (true_divide dt h) (s ! Z) (s ! E_vec) (c, i mod N0, j mod N1, k mod N2)"
    by (elim exE conjE) (rule that, assumption+, simp)
  have xa: "getitem a (c, i, j, k) = Inr (get_periodic a (c, i, j, k))"
    using getitem_lattice[OF sa assms(7-14)] .
  have xd: "getitem d (c, i, j, k) = Inr (get_periodic d (c, i, j, k))"
    using getitem_lattice[OF sd assms(7-14)] .
  have va: "get_periodic a (c, i, j, k) = B_next (true_divide dt h) (s ! E_vec) (s ! B_vec) (c, i, j, k)"
    using ga[OF assms(7,8) pos, of i j k] by (simp only: m)
  have vd: "get_periodic d (c, i, j, k) = E_next (true_divide dt h) (s ! Z) (s ! E_vec) (c, i, j, k)"
    using gd[OF assms(7,8) pos, of i j k] by (simp only: m)
  have "get_periodic a (c, i, j, k) =
          get_periodic (s ! B_vec) (c, i, j, k) - (get_periodic d (c, i, j, k) - get_periodic (s ! Z) (c, i, j, k))"
    unfolding va vd by (rule B_next_E_next[OF assms(7,8)])
  with ra rd xa xd show ?thesis by blast
qed

theorem update_B_vec_is_negated_E_increment_witness:
  "\<exists>B_vec_new D x y.
      update_B_vec 1 (2, 2, 2) (2, 1, 1) 0 1 [E_ex, B_ex, zeros (3, nat 2, nat 1, nat 1)] =
        (Inr (length [E_ex, B_ex, zeros (3, nat 2, nat 1, nat 1)]),
         [E_ex, B_ex, zeros (3, nat 2, nat 1, nat 1)] @ [B_vec_new]) \<and>
      update_E_vec 1 (2, 2, 2) (2, 1, 1) 2 0 [E_ex, B_ex, zeros (3, nat 2, nat 1, nat 1)] =
        (Inr (length [E_ex, B_ex, zeros (3, nat 2, nat 1, nat 1)]),
         [E_ex, B_ex, zeros (3, nat 2, nat 1, nat 1)] @ [D]) \<and>
      getitem B_vec_new (1, 1, 0, 0) = Inr x \<and> getitem D (1, 1, 0, 0) = Inr y \<and>
      x = get_periodic ([E_ex, B_ex, zeros (3, nat 2, nat 1, nat 1)] ! 1) (1, 1, 0, 0)
            - (y - get_periodic ([E_ex, B_ex, zeros (3, nat 2, nat 1, nat 1)] ! 2) (1, 1, 0, 0))"
  by (rule update_B_vec_is_negated_E_increment) (simp_all add: E_ex_def B_ex_def)

end
